theory Spec2Isabelle
  imports Main "HOL-Library.Sublist"
begin

section \<open>The build script of MegaBasterd Go Edition\<close>

text \<open>
  A shallow embedding of \<^verbatim>\<open>build.py\<close> and \<^verbatim>\<open>run.py\<close>. Both scripts are sequences of
  effects: lines printed, external processes started, files removed. The effects are made
  explicit as a \<open>world\<close> that every function takes and returns; an uncaught Python
  exception is the \<open>Inl\<close> of the result.
\<close>

subsection \<open>Data\<close>

text \<open>
  A path is the list of its components, as \<^verbatim>\<open>pathlib\<close> keeps it. The file system maps the
  paths that exist to what they are. Whether removing an entry raises (a permission, a
  file in use) is decided outside the script: \<open>rm_fails\<close> is that decision.
\<close>

type_synonym path = "string list"

datatype node = File | Dir

record filesystem =
  nodes :: "path \<rightharpoonup> node"
  rm_fails :: "path \<Rightarrow> bool"

text \<open>
  What \<^verbatim>\<open>subprocess.run\<close> meets when it starts a command: the process ran and exited with
  a code, or the executable was not found. These are the two outcomes \<^verbatim>\<open>run_command\<close>
  handles.
\<close>

datatype outcome = Exited int | NotFound

datatype exn = NameError string | OSError path | IndexError | FileNotFoundError

text \<open>One call of \<^verbatim>\<open>subprocess.run\<close>: the command, \<^verbatim>\<open>cwd\<close> and \<^verbatim>\<open>check\<close>.\<close>

record invocation =
  inv_cmd :: "string list"
  inv_cwd :: "path option"
  inv_check :: bool

text \<open>
  A printed line, by the function that printed it: \<^verbatim>\<open>print_header\<close>, \<^verbatim>\<open>print_success\<close>,
  \<^verbatim>\<open>print_error\<close> (the only one writing to the standard error) and \<^verbatim>\<open>print_info\<close>.
\<close>

datatype report = Header string | Success string | Error string | Info string

record world =
  fs :: filesystem
  calls :: "invocation list"
  out :: "report list"

text \<open>
  The external programs: given the command, the working directory and the file system,
  a program ends in an outcome and leaves a file system behind.
\<close>

type_synonym proc = "string list \<Rightarrow> path option \<Rightarrow> filesystem \<Rightarrow> outcome \<times> filesystem"

subsection \<open>Strings and paths\<close>

text \<open>\<^verbatim>\<open>sep.join(xs)\<close>\<close>

fun join :: "string \<Rightarrow> string list \<Rightarrow> string" where
  "join sep [] = []"
| "join sep [x] = x"
| "join sep (x # y # ys) = x @ sep @ join sep (y # ys)"

text \<open>\<^verbatim>\<open>str(n)\<close> of an integer, as an f-string renders it.\<close>

definition digit_char :: "nat \<Rightarrow> char" where
  "digit_char d = char_of (48 + d)"

fun str_nat :: "nat \<Rightarrow> string" where
  "str_nat n = (if n < 10 then [digit_char n] else str_nat (n div 10) @ [digit_char (n mod 10)])"

declare str_nat.simps [simp del]

definition str_int :: "int \<Rightarrow> string" where
  "str_int i = (if i < 0 then CHR ''-'' # str_nat (nat (- i)) else str_nat (nat i))"

text \<open>
  \<^verbatim>\<open>Path(s)\<close> for a relative path: the components between slashes, without the empty
  ones (a trailing or doubled slash) and without \<^verbatim>\<open>.\<close>
\<close>

fun components :: "string \<Rightarrow> string list" where
  "components [] = [[]]"
| "components (c # cs) =
     (if c = CHR ''/'' then [] # components cs
      else (case components cs of
              [] \<Rightarrow> [[c]]
            | x # xs \<Rightarrow> (c # x) # xs))"

definition Path :: "string \<Rightarrow> path" where
  "Path s = filter (\<lambda>c. c \<noteq> [] \<and> c \<noteq> ''.'') (components s)"

subsection \<open>File system operations\<close>

definition exists :: "filesystem \<Rightarrow> path \<Rightarrow> bool" where
  "exists f p = (nodes f p \<noteq> None)"

definition is_dir :: "filesystem \<Rightarrow> path \<Rightarrow> bool" where
  "is_dir f p = (nodes f p = Some Dir)"

text \<open>\<^verbatim>\<open>shutil.rmtree\<close>: the directory goes with everything below it, or the call raises.\<close>

definition rmtree :: "filesystem \<Rightarrow> path \<Rightarrow> exn + filesystem" where
  "rmtree f p =
     (if rm_fails f p then Inl (OSError p)
      else Inr (f\<lparr>nodes := (\<lambda>q. if prefix p q then None else nodes f q)\<rparr>))"

text \<open>\<^verbatim>\<open>Path.unlink\<close>: the one entry goes, or the call raises.\<close>

definition unlink :: "filesystem \<Rightarrow> path \<Rightarrow> exn + filesystem" where
  "unlink f p =
     (if rm_fails f p then Inl (OSError p)
      else Inr (f\<lparr>nodes := (nodes f)(p := None)\<rparr>))"

subsection \<open>Printing\<close>

definition print_header :: "string \<Rightarrow> world \<Rightarrow> world" where
  "print_header msg w = w\<lparr>out := out w @ [Header msg]\<rparr>"

definition print_success :: "string \<Rightarrow> world \<Rightarrow> world" where
  "print_success msg w = w\<lparr>out := out w @ [Success msg]\<rparr>"

definition print_error :: "string \<Rightarrow> world \<Rightarrow> world" where
  "print_error msg w = w\<lparr>out := out w @ [Error msg]\<rparr>"

definition print_info :: "string \<Rightarrow> world \<Rightarrow> world" where
  "print_info msg w = w\<lparr>out := out w @ [Info msg]\<rparr>"

subsection \<open>\<^verbatim>\<open>run_command\<close>\<close>

text \<open>
  The command line is printed, then the process is started. With \<^verbatim>\<open>check\<close> set a non-zero
  exit raises \<^verbatim>\<open>CalledProcessError\<close>, which is caught, reported and turned into \<^verbatim>\<open>False\<close>;
  without it the comparison \<^verbatim>\<open>returncode == 0\<close> gives the result and nothing is printed.
  A missing executable is caught and reported under either setting. An empty command has
  no \<^verbatim>\<open>cmd[0]\<close> to start: that \<^verbatim>\<open>IndexError\<close> is not among the exceptions caught.
\<close>

definition run_command ::
  "proc \<Rightarrow> string list \<Rightarrow> path option \<Rightarrow> bool \<Rightarrow> world \<Rightarrow> (exn + bool) \<times> world" where
  "run_command os cmd cwd check w =
     (let w1 = print_info (''Running: '' @ join '' '' cmd) w in
      case cmd of
        [] \<Rightarrow> (Inl IndexError, w1)
      | exe # _ \<Rightarrow>
          (let (r, f) = os cmd cwd (fs w1);
               w2 = w1\<lparr>fs := f,
                        calls := calls w1 @ [\<lparr>inv_cmd = cmd, inv_cwd = cwd, inv_check = check\<rparr>]\<rparr>
           in case r of
                Exited returncode \<Rightarrow>
                  if check \<and> returncode \<noteq> 0
                  then (Inr False,
                        print_error (''Command failed with exit code '' @ str_int returncode) w2)
                  else (Inr (returncode = 0), w2)
              | NotFound \<Rightarrow> (Inr False, print_error (''Command not found: '' @ exe) w2)))"

subsection \<open>The commands\<close>

definition build :: "proc \<Rightarrow> bool \<Rightarrow> bool \<Rightarrow> world \<Rightarrow> (exn + bool) \<times> world" where
  "build os clean_opt upx w =
     (let w1 = print_header ''Building Application'' w;
          cmd = [''wails'', ''build''];
          cmd = (if clean_opt then cmd @ [''-clean''] else cmd);
          cmd = (if upx then cmd @ [''-upx''] else cmd)
      in run_command os cmd None True w1)"

definition test :: "proc \<Rightarrow> bool \<Rightarrow> world \<Rightarrow> (exn + bool) \<times> world" where
  "test os coverage w =
     (let w1 = print_header ''Running Tests'' w in
      if coverage then
        (case run_command os
                [''go'', ''test'', ''-v'', ''-coverprofile=coverage.out'',
                 ''./internal/...'', ''./pkg/...''] None True w1 of
           (Inl e, w2) \<Rightarrow> (Inl e, w2)
         | (Inr ok, w2) \<Rightarrow>
             if \<not> ok then (Inr False, w2)
             else
               (let w3 = print_success ''Tests passed with coverage'' w2;
                    w4 = print_info ''Generating coverage report...'' w3
                in case run_command os
                          [''go'', ''tool'', ''cover'', ''-html=coverage.out'',
                           ''-o'', ''coverage.html''] None True w4 of
                     (Inl e, w5) \<Rightarrow> (Inl e, w5)
                   | (Inr ok2, w5) \<Rightarrow>
                       if ok2
                       then (Inr True,
                             print_success ''Coverage report generated: coverage.html'' w5)
                       else (Inr False, w5)))
      else
        (case run_command os
                [''go'', ''test'', ''-v'', ''./internal/...'', ''./pkg/...''] None True w1 of
           (Inl e, w2) \<Rightarrow> (Inl e, w2)
         | (Inr ok, w2) \<Rightarrow>
             if ok then (Inr True, print_success ''All tests passed'' w2)
             else (Inr False, w2)))"

definition paths_to_remove :: "string list" where
  "paths_to_remove =
     [''build/'', ''frontend/dist/'', ''frontend/node_modules/'', ''coverage.out'',
      ''coverage.html'']"

text \<open>
  The loop of \<^verbatim>\<open>clean\<close> over the paths left to process. Nothing catches what
  \<^verbatim>\<open>shutil.rmtree\<close> or \<^verbatim>\<open>unlink\<close> raises: the loop ends there, after the line announcing
  the removal and before the line reporting it.
\<close>

fun clean_loop :: "string list \<Rightarrow> world \<Rightarrow> (exn + unit) \<times> world" where
  "clean_loop [] w = (Inr (), w)"
| "clean_loop (p # ps) w =
     (let full_path = Path p in
      if exists (fs w) full_path then
        (if is_dir (fs w) full_path then
           (let w1 = print_info (''Removing directory: '' @ p) w in
            case rmtree (fs w1) full_path of
              Inl e \<Rightarrow> (Inl e, w1)
            | Inr f \<Rightarrow> clean_loop ps (print_success (''Removed: '' @ p) (w1\<lparr>fs := f\<rparr>)))
         else
           (let w1 = print_info (''Removing file: '' @ p) w in
            case unlink (fs w1) full_path of
              Inl e \<Rightarrow> (Inl e, w1)
            | Inr f \<Rightarrow> clean_loop ps (print_success (''Removed: '' @ p) (w1\<lparr>fs := f\<rparr>))))
      else clean_loop ps (print_info (''Skipping (not found): '' @ p) w))"

definition clean :: "world \<Rightarrow> (exn + bool) \<times> world" where
  "clean w =
     (let w1 = print_header ''Cleaning Build Artifacts'' w in
      case clean_loop paths_to_remove w1 of
        (Inl e, w2) \<Rightarrow> (Inl e, w2)
      | (Inr _, w2) \<Rightarrow> (Inr True, print_success ''Clean complete'' w2))"

text \<open>
  \<^verbatim>\<open>deps\<close>. The branch for a missing frontend directory calls \<^verbatim>\<open>print_warning\<close>, a name
  the module never defines: Python raises \<^verbatim>\<open>NameError\<close> there, before the
  \<^verbatim>\<open>return True\<close> that follows.
\<close>

definition deps :: "proc \<Rightarrow> world \<Rightarrow> (exn + bool) \<times> world" where
  "deps os w =
     (let w1 = print_header ''Installing Dependencies'' w;
          w2 = print_info ''Installing Go dependencies...'' w1
      in case run_command os [''go'', ''mod'', ''download''] None True w2 of
           (Inl e, w3) \<Rightarrow> (Inl e, w3)
         | (Inr ok, w3) \<Rightarrow>
             if \<not> ok then (Inr False, w3)
             else
               (case run_command os [''go'', ''mod'', ''tidy''] None True w3 of
                  (Inl e, w4) \<Rightarrow> (Inl e, w4)
                | (Inr ok2, w4) \<Rightarrow>
                    if \<not> ok2 then (Inr False, w4)
                    else
                      (let w5 = print_success ''Go dependencies installed'' w4;
                           frontend_dir = Path ''frontend''
                       in if exists (fs w5) frontend_dir then
                            (let w6 = print_info ''Installing frontend dependencies...'' w5
                             in case run_command os [''npm'', ''install'']
                                       (Some frontend_dir) True w6 of
                                  (Inl e, w7) \<Rightarrow> (Inl e, w7)
                                | (Inr ok3, w7) \<Rightarrow>
                                    if ok3
                                    then (Inr True,
                                          print_success ''Frontend dependencies installed'' w7)
                                    else (Inr False, w7))
                          else (Inl (NameError ''print_warning''), w5))))"

definition lint :: "proc \<Rightarrow> world \<Rightarrow> (exn + bool) \<times> world" where
  "lint os w =
     (let w1 = print_header ''Running Linter'' w in
      case run_command os [''golangci-lint'', ''run'', ''./...''] None False w1 of
        (Inl e, w2) \<Rightarrow> (Inl e, w2)
      | (Inr ok, w2) \<Rightarrow>
          if ok then (Inr True, print_success ''Linting complete'' w2)
          else (Inr False,
                print_error ''Linting failed (or golangci-lint not installed)'' w2))"

subsection \<open>\<^verbatim>\<open>run.py\<close>\<close>

text \<open>
  The directory of the script is a \<^verbatim>\<open>pathlib\<close> path: its anchor (empty for a relative
  path, \<^verbatim>\<open>/\<close> for an absolute one) and its components. \<^verbatim>\<open>p / s\<close> adds the components of
  a relative \<^verbatim>\<open>s\<close>, and \<^verbatim>\<open>str\<close> writes the anchor and the components with slashes between
  them, or a dot for the empty relative path.
\<close>

type_synonym pypath = "string \<times> path"

definition truediv :: "pypath \<Rightarrow> string \<Rightarrow> pypath" where
  "truediv p s = (fst p, snd p @ Path s)"

definition str_path :: "pypath \<Rightarrow> string" where
  "str_path p = (if fst p = [] \<and> snd p = [] then ''.'' else fst p @ join ''/'' (snd p))"

text \<open>
  The wrapper starts \<^verbatim>\<open>build.py\<close>, found beside the script, under the running interpreter
  and does not look at the result of \<^verbatim>\<open>subprocess.run\<close>. With no argument it asks for the
  help text and calls \<^verbatim>\<open>sys.exit(0)\<close>; otherwise it passes its arguments on and the script
  ends after the call, which is exit code 0 as well. Neither call is inside a \<^verbatim>\<open>try\<close>: an
  interpreter that cannot be started is an uncaught \<^verbatim>\<open>FileNotFoundError\<close>. The result is
  the exit code, or the exception that ended the script, together with the command lines
  the wrapper started.
\<close>

definition run_py ::
  "(string list \<Rightarrow> outcome) \<Rightarrow> string \<Rightarrow> pypath \<Rightarrow> string list \<Rightarrow>
     (exn + int) \<times> string list list" where
  "run_py spawn executable script_dir argv =
     (let build_script = truediv script_dir ''build.py'' in
      if length argv = 1 then
        (let cmd = [executable, str_path build_script, ''--help''] in
         case spawn cmd of
           NotFound \<Rightarrow> (Inl FileNotFoundError, [cmd])
         | Exited _ \<Rightarrow> (Inr 0, [cmd]))
      else
        (let cmd = [executable, str_path build_script] @ drop 1 argv in
         case spawn cmd of
           NotFound \<Rightarrow> (Inl FileNotFoundError, [cmd])
         | Exited _ \<Rightarrow> (Inr 0, [cmd])))"

subsection \<open>Observing a run\<close>

text \<open>
  What the theorems below read off a run: the lines printed between two worlds, the
  number of times a command line was started between them, and the two kinds of line by
  which \<^verbatim>\<open>clean\<close> reports an entry.
\<close>

definition printed :: "world \<Rightarrow> world \<Rightarrow> report list" where
  "printed w w' = drop (length (out w)) (out w')"

definition attempts :: "string list \<Rightarrow> world \<Rightarrow> world \<Rightarrow> nat" where
  "attempts c w w' = length (filter (\<lambda>i. inv_cmd i = c) (drop (length (calls w)) (calls w')))"

fun is_removed :: "report \<Rightarrow> bool" where
  "is_removed (Success m) = prefix ''Removed: '' m"
| "is_removed _ = False"

fun is_skipping :: "report \<Rightarrow> bool" where
  "is_skipping (Info m) = prefix ''Skipping (not found): '' m"
| "is_skipping _ = False"

fun is_error :: "report \<Rightarrow> bool" where
  "is_error (Error m) = True"
| "is_error _ = False"

text \<open>
  Sample inputs: external programs that end the same way whatever they are asked, or fail
  on one command line only; a child process that exits with a given code; file systems
  holding the given entries; and a world in which nothing has been printed or started yet.
\<close>

definition always :: "outcome \<Rightarrow> proc" where
  "always r cmd cwd f = (r, f)"

definition no_files :: filesystem where
  "no_files = \<lparr>nodes = Map.empty, rm_fails = (\<lambda>p. False)\<rparr>"

definition frontend_only :: filesystem where
  "frontend_only = \<lparr>nodes = [[''frontend''] \<mapsto> Dir], rm_fails = (\<lambda>p. False)\<rparr>"

definition coverage_only :: filesystem where
  "coverage_only =
     \<lparr>nodes = [[''coverage.out''] \<mapsto> File, [''coverage.html''] \<mapsto> File],
      rm_fails = (\<lambda>p. False)\<rparr>"

definition coverage_locked :: filesystem where
  "coverage_locked =
     \<lparr>nodes = [[''coverage.out''] \<mapsto> File, [''coverage.html''] \<mapsto> File],
      rm_fails = (\<lambda>p. p = [''coverage.out''])\<rparr>"

definition fails_on :: "string list \<Rightarrow> proc" where
  "fails_on c cmd cwd f = (if cmd = c then Exited 1 else Exited 0, f)"

definition child_exits :: "int \<Rightarrow> string list \<Rightarrow> outcome" where
  "child_exits rc cmd = Exited rc"

definition after_build :: filesystem where
  "after_build =
     \<lparr>nodes = [[''build''] \<mapsto> Dir, [''build'', ''bin''] \<mapsto> Dir,
               [''build'', ''bin'', ''megobasterd''] \<mapsto> File, [''coverage.out''] \<mapsto> File],
      rm_fails = (\<lambda>p. False)\<rparr>"

definition start :: "filesystem \<Rightarrow> world" where
  "start f = \<lparr>fs = f, calls = [], out = []\<rparr>"

section \<open>Properties\<close>

subsection \<open>Auxiliary facts\<close>

text \<open>
  What \<^verbatim>\<open>run_command\<close> does with a command that names an executable, in one
  equation: the result, the process started, and the lines printed.
\<close>

lemma run_command_Cons:
  "run_command os (exe # args) cwd check w =
     (Inr (fst (os (exe # args) cwd (fs w)) = Exited 0),
      \<lparr>fs = snd (os (exe # args) cwd (fs w)),
       calls = calls w @ [\<lparr>inv_cmd = exe # args, inv_cwd = cwd, inv_check = check\<rparr>],
       out = out w @ Info (''Running: '' @ join '' '' (exe # args)) #
         (case fst (os (exe # args) cwd (fs w)) of
            Exited rc \<Rightarrow>
              if check \<and> rc \<noteq> 0
              then [Error (''Command failed with exit code '' @ str_int rc)] else []
          | NotFound \<Rightarrow> [Error (''Command not found: '' @ exe)])\<rparr>)"
  by (cases "os (exe # args) cwd (fs w)")
     (simp add: run_command_def print_info_def print_error_def Let_def split: outcome.splits)

lemma str_int_1: "str_int 1 = ''1''"
  by code_simp

lemma Path_frontend: "Path ''frontend'' = [''frontend'']"
  by (simp add: Path_def)

lemma Path_listed:
  "Path ''build/'' = [''build'']"
  "Path ''frontend/dist/'' = [''frontend'', ''dist'']"
  "Path ''frontend/node_modules/'' = [''frontend'', ''node_modules'']"
  "Path ''coverage.out'' = [''coverage.out'']"
  "Path ''coverage.html'' = [''coverage.html'']"
  by (simp_all add: Path_def)

text \<open>
  One turn of the loop, in the three ways it can go: the entry is not there and is skipped;
  its removal raises and the loop ends; or it is removed and the loop goes on in a world
  where only this has changed.
\<close>

lemma clean_loop_step:
  obtains
    (skip) "\<not> exists (fs w) (Path p)"
      "clean_loop (p # ps) w = clean_loop ps (print_info (''Skipping (not found): '' @ p) w)"
  | (raise) v k where "exists (fs w) (Path p)" "rm_fails (fs w) (Path p)"
      "clean_loop (p # ps) w = (Inl (OSError (Path p)), v)" "fs v = fs w"
      "out v = out w @ [Info k]"
  | (removed) v k where "exists (fs w) (Path p)" "\<not> rm_fails (fs w) (Path p)"
      "clean_loop (p # ps) w = clean_loop ps v"
      "rm_fails (fs v) = rm_fails (fs w)"
      "nodes (fs v) (Path p) = None"
      "\<forall>q. nodes (fs w) q = None \<longrightarrow> nodes (fs v) q = None"
      "out v = out w @ [Info k, Success (''Removed: '' @ p)]"
proof (cases "exists (fs w) (Path p)")
  case False
  then show ?thesis by (intro skip) simp_all
next
  case there: True
  show ?thesis
  proof (cases "rm_fails (fs w) (Path p)")
    case True
    show ?thesis
    proof (cases "is_dir (fs w) (Path p)")
      case True
      with there \<open>rm_fails (fs w) (Path p)\<close> show ?thesis
        by (intro raise [of "print_info (''Removing directory: '' @ p) w"])
           (simp_all add: rmtree_def print_info_def)
    next
      case False
      with there \<open>rm_fails (fs w) (Path p)\<close> show ?thesis
        by (intro raise [of "print_info (''Removing file: '' @ p) w"])
           (simp_all add: unlink_def print_info_def)
    qed
  next
    case ok: False
    show ?thesis
    proof (cases "is_dir (fs w) (Path p)")
      case True
      with there ok show ?thesis
        by (intro removed [of "print_success (''Removed: '' @ p)
              ((print_info (''Removing directory: '' @ p) w)
                 \<lparr>fs := (fs w)\<lparr>nodes := (\<lambda>q. if prefix (Path p) q then None
                                               else nodes (fs w) q)\<rparr>\<rparr>)"])
           (simp_all add: rmtree_def print_info_def print_success_def cong: if_cong)
    next
      case False
      with there ok show ?thesis
        by (intro removed [of "print_success (''Removed: '' @ p)
              ((print_info (''Removing file: '' @ p) w)
                 \<lparr>fs := (fs w)\<lparr>nodes := (nodes (fs w))(Path p := None)\<rparr>\<rparr>)"])
           (simp_all add: unlink_def print_info_def print_success_def)
    qed
  qed
qed

lemma print_info_fs [simp]: "fs (print_info m w) = fs w"
  by (simp add: print_info_def)

lemma print_info_out [simp]: "out (print_info m w) = out w @ [Info m]"
  by (simp add: print_info_def)

text \<open>The loop only removes: what is not there stays away.\<close>

lemma clean_loop_absent_stays:
  "nodes (fs w) q = None \<Longrightarrow> nodes (fs (snd (clean_loop ps w))) q = None"
proof (induction ps arbitrary: w)
  case Nil
  then show ?case by simp
next
  case (Cons p ps)
  show ?case
  proof (cases rule: clean_loop_step [of w p ps])
    case skip
    with Cons show ?thesis by simp
  next
    case (raise v k)
    with Cons.prems show ?thesis by simp
  next
    case (removed v k)
    with Cons show ?thesis by simp
  qed
qed

text \<open>When every listed entry that is there can be removed, the loop ends without raising.\<close>

lemma clean_loop_succeeds:
  "\<forall>p\<in>set ps. exists (fs w) (Path p) \<longrightarrow> \<not> rm_fails (fs w) (Path p) \<Longrightarrow>
     fst (clean_loop ps w) = Inr ()"
proof (induction ps arbitrary: w)
  case Nil
  then show ?case by simp
next
  case (Cons p ps)
  show ?case
  proof (cases rule: clean_loop_step [of w p ps])
    case skip
    with Cons.prems Cons.IH [of "print_info (''Skipping (not found): '' @ p) w"]
    show ?thesis by simp
  next
    case (raise v k)
    with Cons.prems show ?thesis by simp
  next
    case (removed v k)
    with Cons.prems have "\<forall>q\<in>set ps. exists (fs v) (Path q) \<longrightarrow> \<not> rm_fails (fs v) (Path q)"
      by (auto simp: exists_def)
    with removed Cons.IH [of v] show ?thesis by simp
  qed
qed

text \<open>After a loop that did not raise, none of the listed entries is left.\<close>

lemma clean_loop_all_absent:
  "fst (clean_loop ps w) = Inr () \<Longrightarrow> p \<in> set ps \<Longrightarrow>
     nodes (fs (snd (clean_loop ps w))) (Path p) = None"
proof (induction ps arbitrary: w)
  case Nil
  then show ?case by simp
next
  case (Cons a ps)
  show ?case
  proof (cases rule: clean_loop_step [of w a ps])
    case skip
    with Cons show ?thesis
      by (auto simp: exists_def intro: clean_loop_absent_stays)
  next
    case (raise v k)
    with Cons.prems show ?thesis by simp
  next
    case (removed v k)
    with Cons show ?thesis
      by (auto intro: clean_loop_absent_stays)
  qed
qed

text \<open>A loop over entries none of which is there removes nothing and cannot raise.\<close>

lemma clean_loop_nothing_there:
  "\<forall>p\<in>set ps. nodes (fs w) (Path p) = None \<Longrightarrow>
     fst (clean_loop ps w) = Inr () \<and> fs (snd (clean_loop ps w)) = fs w"
  by (induction ps arbitrary: w) (simp_all add: exists_def)

text \<open>The loop appends to what has been printed, and never an error line.\<close>

lemma clean_loop_printed:
  "\<exists>l. out (snd (clean_loop ps w)) = out w @ l \<and> (\<forall>r\<in>set l. \<not> is_error r)"
proof (induction ps arbitrary: w)
  case Nil
  then show ?case by simp
next
  case (Cons p ps)
  show ?case
  proof (cases rule: clean_loop_step [of w p ps])
    case skip
    with Cons.IH [of "print_info (''Skipping (not found): '' @ p) w"] show ?thesis
      by auto
  next
    case (raise v k)
    then show ?thesis by simp
  next
    case (removed v k)
    with Cons.IH [of v] show ?thesis by auto
  qed
qed

text \<open>An entry that was not there when the loop began is reported as skipped.\<close>

lemma clean_loop_skip_reported:
  "fst (clean_loop ps w) = Inr () \<Longrightarrow> p \<in> set ps \<Longrightarrow> nodes (fs w) (Path p) = None \<Longrightarrow>
     \<exists>pre post. out (snd (clean_loop ps w)) =
        out w @ pre @ Info (''Skipping (not found): '' @ p) # post"
proof (induction ps arbitrary: w)
  case Nil
  then show ?case by simp
next
  case (Cons a ps)
  have later: "\<exists>pre post. out (snd (clean_loop ps v)) =
        out w @ pre @ Info (''Skipping (not found): '' @ p) # post"
    if "fst (clean_loop ps v) = Inr ()" "p \<in> set ps" "nodes (fs v) (Path p) = None"
       "out v = out w @ l" for v l
  proof -
    from Cons.IH [OF that(1-3)] obtain pre post where
      "out (snd (clean_loop ps v)) = out v @ pre @ Info (''Skipping (not found): '' @ p) # post"
      by blast
    with that(4) have "out (snd (clean_loop ps v)) =
        out w @ (l @ pre) @ Info (''Skipping (not found): '' @ p) # post" by simp
    then show ?thesis by blast
  qed
  show ?case
  proof (cases rule: clean_loop_step [of w a ps])
    case skip
    show ?thesis
    proof (cases "p = a")
      case True
      obtain l where "out (snd (clean_loop ps (print_info (''Skipping (not found): '' @ a) w))) =
          out (print_info (''Skipping (not found): '' @ a) w) @ l"
        using clean_loop_printed by blast
      with skip True have "out (snd (clean_loop (a # ps) w)) =
          out w @ [] @ Info (''Skipping (not found): '' @ p) # l" by simp
      then show ?thesis by blast
    next
      case False
      with Cons.prems skip show ?thesis
        by (intro later [of "print_info (''Skipping (not found): '' @ a) w"
              "[Info (''Skipping (not found): '' @ a)]", unfolded skip(2) [symmetric]]) simp_all
    qed
  next
    case (raise v k)
    with Cons.prems show ?thesis by simp
  next
    case (removed v k)
    with Cons.prems have "p \<noteq> a" by (auto simp: exists_def)
    with Cons.prems removed show ?thesis
      by (intro later [of v "[Info k, Success (''Removed: '' @ a)]",
            unfolded removed(3) [symmetric]]) simp_all
  qed
qed

lemma print_header_fs [simp]: "fs (print_header m w) = fs w"
  by (simp add: print_header_def)

lemma print_success_fs [simp]: "fs (print_success m w) = fs w"
  by (simp add: print_success_def)

text \<open>The result and the file system of \<^verbatim>\<open>clean\<close> are those of its loop.\<close>

lemma clean_result:
  "fst (clean w) =
     (case fst (clean_loop paths_to_remove (print_header ''Cleaning Build Artifacts'' w)) of
        Inl e \<Rightarrow> Inl e | Inr _ \<Rightarrow> Inr True)"
  by (simp add: clean_def split: prod.splits sum.splits)

lemma clean_fs:
  "fs (snd (clean w)) =
     fs (snd (clean_loop paths_to_remove (print_header ''Cleaning Build Artifacts'' w)))"
  by (simp add: clean_def split: prod.splits sum.splits)

subsection \<open>The \<^verbatim>\<open>test\<close> command\<close>

text \<open>
  Claim C1. With the coverage option, a failing test run ends the command: the result is
  failure and the report generator is never started. A passing test run is followed by
  exactly one start of the report generator, and the result is the conjunction of the two
  successes. Without the coverage option the report generator is never started, and the
  result is the success of the one test run.
\<close>

theorem test_report_generation:
  "(fst (os [''go'', ''test'', ''-v'', ''-coverprofile=coverage.out'', ''./internal/...'', ''./pkg/...'']
          None (fs w)) \<noteq> Exited 0 \<longrightarrow>
      fst (test os True w) = Inr False \<and>
      attempts [''go'', ''tool'', ''cover'', ''-html=coverage.out'', ''-o'', ''coverage.html'']
        w (snd (test os True w)) = 0 \<and>
      calls (snd (test os True w)) =
        calls w @
        [\<lparr>inv_cmd = [''go'', ''test'', ''-v'', ''-coverprofile=coverage.out'',
                      ''./internal/...'', ''./pkg/...''],
          inv_cwd = None, inv_check = True\<rparr>]) \<and>
   (fst (os [''go'', ''test'', ''-v'', ''-coverprofile=coverage.out'', ''./internal/...'', ''./pkg/...'']
          None (fs w)) = Exited 0 \<longrightarrow>
      fst (test os True w) =
        Inr (fst (os [''go'', ''test'', ''-v'', ''-coverprofile=coverage.out'',
                      ''./internal/...'', ''./pkg/...''] None (fs w)) = Exited 0 \<and>
             fst (os [''go'', ''tool'', ''cover'', ''-html=coverage.out'', ''-o'', ''coverage.html'']
                    None
                    (snd (os [''go'', ''test'', ''-v'', ''-coverprofile=coverage.out'',
                              ''./internal/...'', ''./pkg/...''] None (fs w)))) = Exited 0) \<and>
      attempts [''go'', ''tool'', ''cover'', ''-html=coverage.out'', ''-o'', ''coverage.html'']
        w (snd (test os True w)) = 1 \<and>
      calls (snd (test os True w)) =
        calls w @
        [\<lparr>inv_cmd = [''go'', ''test'', ''-v'', ''-coverprofile=coverage.out'',
                      ''./internal/...'', ''./pkg/...''],
          inv_cwd = None, inv_check = True\<rparr>,
         \<lparr>inv_cmd = [''go'', ''tool'', ''cover'', ''-html=coverage.out'', ''-o'',
                      ''coverage.html''],
          inv_cwd = None, inv_check = True\<rparr>]) \<and>
   fst (test os False w) =
     Inr (fst (os [''go'', ''test'', ''-v'', ''./internal/...'', ''./pkg/...''] None (fs w)) =
          Exited 0) \<and>
   attempts [''go'', ''tool'', ''cover'', ''-html=coverage.out'', ''-o'', ''coverage.html'']
     w (snd (test os False w)) = 0 \<and>
   calls (snd (test os False w)) =
     calls w @
     [\<lparr>inv_cmd = [''go'', ''test'', ''-v'', ''./internal/...'', ''./pkg/...''],
       inv_cwd = None, inv_check = True\<rparr>]"
  by (simp add: test_def run_command_Cons print_header_def print_success_def print_info_def Let_def
      attempts_def)

text \<open>The three runs: failing tests, all passing, and a failing report generator.\<close>

theorem test_report_generation_witness:
  "fst (test (always (Exited 2)) True (start no_files)) = Inr False \<and>
   calls (snd (test (always (Exited 2)) True (start no_files))) =
     [\<lparr>inv_cmd = [''go'', ''test'', ''-v'', ''-coverprofile=coverage.out'',
                   ''./internal/...'', ''./pkg/...''],
       inv_cwd = None, inv_check = True\<rparr>] \<and>
   fst (test (always (Exited 0)) True (start no_files)) = Inr True \<and>
   attempts [''go'', ''tool'', ''cover'', ''-html=coverage.out'', ''-o'', ''coverage.html'']
     (start no_files) (snd (test (always (Exited 0)) True (start no_files))) = 1 \<and>
   fst (test (fails_on [''go'', ''tool'', ''cover'', ''-html=coverage.out'', ''-o'', ''coverage.html''])
          True (start no_files)) = Inr False \<and>
   attempts [''go'', ''tool'', ''cover'', ''-html=coverage.out'', ''-o'', ''coverage.html'']
     (start no_files)
     (snd (test (fails_on [''go'', ''tool'', ''cover'', ''-html=coverage.out'', ''-o'', ''coverage.html''])
          True (start no_files))) = 1"
  using test_report_generation [of "always (Exited 2)" "start no_files"]
        test_report_generation [of "always (Exited 0)" "start no_files"]
        test_report_generation
          [of "fails_on [''go'', ''tool'', ''cover'', ''-html=coverage.out'', ''-o'', ''coverage.html'']"
              "start no_files"]
  by (simp add: always_def fails_on_def start_def)

subsection \<open>The \<^verbatim>\<open>deps\<close> command\<close>

text \<open>
  Claim C2. After a successful download and tidy, \<^verbatim>\<open>npm install\<close> is left out exactly when
  the frontend directory is not there. When it is there, the result is the success of
  \<^verbatim>\<open>npm install\<close>. When it is not, the command does not reach its \<^verbatim>\<open>return True\<close>: the
  call of the undefined \<^verbatim>\<open>print_warning\<close> raises \<^verbatim>\<open>NameError\<close> first.
\<close>

theorem deps_frontend_phase:
  "fst (os [''go'', ''mod'', ''download''] None (fs w)) = Exited 0 \<Longrightarrow>
   fst (os [''go'', ''mod'', ''tidy''] None (snd (os [''go'', ''mod'', ''download''] None (fs w)))) =
     Exited 0 \<Longrightarrow>
   f = snd (os [''go'', ''mod'', ''tidy''] None (snd (os [''go'', ''mod'', ''download''] None (fs w)))) \<Longrightarrow>
   (attempts [''npm'', ''install''] w (snd (deps os w)) = 0) = (\<not> exists f (Path ''frontend'')) \<and>
   (exists f (Path ''frontend'') \<longrightarrow>
      fst (deps os w) = Inr (fst (os [''npm'', ''install''] (Some (Path ''frontend'')) f) = Exited 0) \<and>
      calls (snd (deps os w)) =
        calls w @
        [\<lparr>inv_cmd = [''go'', ''mod'', ''download''], inv_cwd = None, inv_check = True\<rparr>,
         \<lparr>inv_cmd = [''go'', ''mod'', ''tidy''], inv_cwd = None, inv_check = True\<rparr>,
         \<lparr>inv_cmd = [''npm'', ''install''], inv_cwd = Some (Path ''frontend''), inv_check = True\<rparr>]) \<and>
   (\<not> exists f (Path ''frontend'') \<longrightarrow>
      fst (deps os w) = Inl (NameError ''print_warning'') \<and>
      calls (snd (deps os w)) =
        calls w @
        [\<lparr>inv_cmd = [''go'', ''mod'', ''download''], inv_cwd = None, inv_check = True\<rparr>,
         \<lparr>inv_cmd = [''go'', ''mod'', ''tidy''], inv_cwd = None, inv_check = True\<rparr>])"
  by (simp add: deps_def run_command_Cons print_header_def print_info_def print_success_def Let_def
      attempts_def)

text \<open>Both cases, with every external program succeeding.\<close>

theorem deps_frontend_absent_raises:
  "fst (deps (always (Exited 0)) (start no_files)) = Inl (NameError ''print_warning'') \<and>
   calls (snd (deps (always (Exited 0)) (start no_files))) =
     [\<lparr>inv_cmd = [''go'', ''mod'', ''download''], inv_cwd = None, inv_check = True\<rparr>,
      \<lparr>inv_cmd = [''go'', ''mod'', ''tidy''], inv_cwd = None, inv_check = True\<rparr>] \<and>
   fst (deps (always (Exited 0)) (start frontend_only)) = Inr True \<and>
   calls (snd (deps (always (Exited 0)) (start frontend_only))) =
     [\<lparr>inv_cmd = [''go'', ''mod'', ''download''], inv_cwd = None, inv_check = True\<rparr>,
      \<lparr>inv_cmd = [''go'', ''mod'', ''tidy''], inv_cwd = None, inv_check = True\<rparr>,
      \<lparr>inv_cmd = [''npm'', ''install''], inv_cwd = Some [''frontend''], inv_check = True\<rparr>]"
  using deps_frontend_phase [of "always (Exited 0)" "start no_files" no_files]
        deps_frontend_phase [of "always (Exited 0)" "start frontend_only" frontend_only]
  by (simp add: always_def start_def no_files_def frontend_only_def exists_def Path_frontend)

subsection \<open>\<^verbatim>\<open>run_command\<close>\<close>

text \<open>
  Claim C3, as amended. For a command that names an executable, \<^verbatim>\<open>run_command\<close> returns
  \<^verbatim>\<open>True\<close> exactly when the executable was found and exited with code zero, and returns
  \<^verbatim>\<open>False\<close>, not an exception, otherwise. A missing executable is reported as
  \<^verbatim>\<open>Command not found\<close>. A non-zero exit is reported as \<^verbatim>\<open>Command failed with exit code N\<close>,
  a different line, when \<^verbatim>\<open>check\<close> is set; when it is not set, nothing is printed about
  the exit.
\<close>

theorem run_command_outcomes:
  "fst (run_command os (exe # args) cwd check w) =
     Inr (fst (os (exe # args) cwd (fs w)) = Exited 0) \<and>
   (fst (os (exe # args) cwd (fs w)) = NotFound \<longrightarrow>
      printed w (snd (run_command os (exe # args) cwd check w)) =
        [Info (''Running: '' @ join '' '' (exe # args)),
         Error (''Command not found: '' @ exe)]) \<and>
   (\<forall>rc. fst (os (exe # args) cwd (fs w)) = Exited rc \<and> rc \<noteq> 0 \<longrightarrow>
      printed w (snd (run_command os (exe # args) cwd check w)) =
        Info (''Running: '' @ join '' '' (exe # args)) #
        (if check then [Error (''Command failed with exit code '' @ str_int rc)] else [])) \<and>
   (\<forall>rc. ''Command failed with exit code '' @ str_int rc \<noteq> ''Command not found: '' @ exe)"
  by (simp add: run_command_Cons printed_def)

text \<open>A missing executable, an exit with code 1 and an exit with code 0.\<close>

theorem run_command_outcomes_witness:
  "fst (run_command (always NotFound) [''wails'', ''dev''] None True (start no_files)) = Inr False \<and>
   printed (start no_files) (snd (run_command (always NotFound) [''wails'', ''dev''] None True (start no_files))) =
     [Info ''Running: wails dev'', Error ''Command not found: wails''] \<and>
   fst (run_command (always (Exited 1)) [''wails'', ''dev''] None True (start no_files)) = Inr False \<and>
   printed (start no_files) (snd (run_command (always (Exited 1)) [''wails'', ''dev''] None True (start no_files))) =
     [Info ''Running: wails dev'', Error ''Command failed with exit code 1''] \<and>
   fst (run_command (always (Exited 0)) [''wails'', ''dev''] None True (start no_files)) = Inr True"
  using run_command_outcomes [of "always NotFound" "''wails''" "[''dev'']" None True "start no_files"]
        run_command_outcomes [of "always (Exited 1)" "''wails''" "[''dev'']" None True "start no_files"]
        run_command_outcomes [of "always (Exited 0)" "''wails''" "[''dev'']" None True "start no_files"]
  by (simp add: always_def str_int_1)

text \<open>
  The claim as first stated gives each failure a diagnostic of its own. Started the way
  \<^verbatim>\<open>lint\<close> starts its command, with \<^verbatim>\<open>check\<close> not set, a linter that exits with code 1
  makes \<^verbatim>\<open>run_command\<close> return \<^verbatim>\<open>False\<close> and print the command line only.
\<close>

theorem run_command_unchecked_exit_silent:
  "fst (run_command (always (Exited 1)) [''golangci-lint'', ''run'', ''./...''] None False
          (start no_files)) = Inr False \<and>
   printed (start no_files)
     (snd (run_command (always (Exited 1)) [''golangci-lint'', ''run'', ''./...''] None False
          (start no_files))) = [Info ''Running: golangci-lint run ./...''] \<and>
   filter is_error
     (printed (start no_files)
        (snd (run_command (always (Exited 1)) [''golangci-lint'', ''run'', ''./...''] None False
           (start no_files)))) = []"
  by (simp add: run_command_Cons always_def printed_def start_def)

subsection \<open>The \<^verbatim>\<open>deps\<close> command, download failing\<close>

text \<open>
  Claim C4. When the module download fails, it is the only process started: neither the
  tidy nor the frontend install is attempted, and the result is failure.
\<close>

theorem deps_download_fails:
  "fst (os [''go'', ''mod'', ''download''] None (fs w)) \<noteq> Exited 0 \<Longrightarrow>
     fst (deps os w) = Inr False \<and>
     calls (snd (deps os w)) =
       calls w @ [\<lparr>inv_cmd = [''go'', ''mod'', ''download''], inv_cwd = None, inv_check = True\<rparr>] \<and>
     attempts [''go'', ''mod'', ''download''] w (snd (deps os w)) = 1 \<and>
     attempts [''go'', ''mod'', ''tidy''] w (snd (deps os w)) = 0 \<and>
     attempts [''npm'', ''install''] w (snd (deps os w)) = 0"
  by (simp add: deps_def run_command_Cons print_header_def print_info_def attempts_def Let_def)

text \<open>A failing download, with a frontend directory that would otherwise be installed.\<close>

theorem deps_download_fails_witness:
  "fst (deps (fails_on [''go'', ''mod'', ''download'']) (start frontend_only)) = Inr False \<and>
   calls (snd (deps (fails_on [''go'', ''mod'', ''download'']) (start frontend_only))) =
     [\<lparr>inv_cmd = [''go'', ''mod'', ''download''], inv_cwd = None, inv_check = True\<rparr>]"
  using deps_download_fails [of "fails_on [''go'', ''mod'', ''download'']" "start frontend_only"]
  by (simp add: fails_on_def start_def)

subsection \<open>The \<^verbatim>\<open>clean\<close> command\<close>

text \<open>
  Claim C5. When no removal of a listed entry raises, \<^verbatim>\<open>clean\<close> returns \<^verbatim>\<open>True\<close>, whichever
  of the five entries are there. An entry that is not there is reported as skipped, and
  no error line is printed.
\<close>

theorem clean_returns_success:
  "\<forall>p\<in>set paths_to_remove. exists (fs w) (Path p) \<longrightarrow> \<not> rm_fails (fs w) (Path p) \<Longrightarrow>
     fst (clean w) = Inr True \<and>
     (\<forall>p\<in>set paths_to_remove. \<not> exists (fs w) (Path p) \<longrightarrow>
        Info (''Skipping (not found): '' @ p) \<in> set (printed w (snd (clean w)))) \<and>
     (\<forall>r\<in>set (printed w (snd (clean w))). \<not> is_error r)"
proof -
  assume removable:
    "\<forall>p\<in>set paths_to_remove. exists (fs w) (Path p) \<longrightarrow> \<not> rm_fails (fs w) (Path p)"
  let ?w1 = "print_header ''Cleaning Build Artifacts'' w"
  let ?w2 = "snd (clean_loop paths_to_remove ?w1)"
  from removable have loop: "fst (clean_loop paths_to_remove ?w1) = Inr ()"
    by (intro clean_loop_succeeds) simp
  then have w': "snd (clean w) = print_success ''Clean complete'' ?w2"
    by (cases "clean_loop paths_to_remove ?w1") (simp add: clean_def)
  from loop have result: "fst (clean w) = Inr True"
    by (simp add: clean_result)
  obtain l where l: "out ?w2 = out ?w1 @ l" "\<forall>r\<in>set l. \<not> is_error r"
    using clean_loop_printed by blast
  then have quiet: "\<forall>r\<in>set (printed w (snd (clean w))). \<not> is_error r"
    by (simp add: w' printed_def print_header_def print_success_def)
  have skipped: "Info (''Skipping (not found): '' @ p) \<in> set (printed w (snd (clean w)))"
    if "p \<in> set paths_to_remove" "\<not> exists (fs w) (Path p)" for p
  proof -
    from that have "nodes (fs ?w1) (Path p) = None" by (simp add: exists_def)
    from clean_loop_skip_reported [OF loop that(1) this] obtain pre post where
      "out ?w2 = out ?w1 @ pre @ Info (''Skipping (not found): '' @ p) # post" by blast
    then show ?thesis
      by (simp add: w' printed_def print_header_def print_success_def)
  qed
  from result skipped quiet show ?thesis by blast
qed

text \<open>A build directory with contents and a coverage profile; the rest is skipped.\<close>

theorem clean_returns_success_witness:
  "fst (clean (start after_build)) = Inr True \<and>
   Info ''Skipping (not found): frontend/dist/'' \<in>
     set (printed (start after_build) (snd (clean (start after_build)))) \<and>
   Info ''Skipping (not found): coverage.html'' \<in>
     set (printed (start after_build) (snd (clean (start after_build))))"
  using clean_returns_success [of "start after_build"]
  by (simp add: paths_to_remove_def Path_listed start_def after_build_def exists_def)

text \<open>
  Claim C6. When no removal of a listed entry raises, a second \<^verbatim>\<open>clean\<close> leaves the file
  system as the first one left it, with none of the five entries there, and returns what
  the first returned, \<^verbatim>\<open>True\<close>.
\<close>

theorem clean_idempotent:
  "\<forall>p\<in>set paths_to_remove. exists (fs w) (Path p) \<longrightarrow> \<not> rm_fails (fs w) (Path p) \<Longrightarrow>
     fs (snd (clean (snd (clean w)))) = fs (snd (clean w)) \<and>
     (\<forall>p\<in>set paths_to_remove. \<not> exists (fs (snd (clean w))) (Path p)) \<and>
     fst (clean (snd (clean w))) = fst (clean w) \<and>
     fst (clean w) = Inr True"
proof -
  assume removable:
    "\<forall>p\<in>set paths_to_remove. exists (fs w) (Path p) \<longrightarrow> \<not> rm_fails (fs w) (Path p)"
  let ?w1 = "print_header ''Cleaning Build Artifacts'' w"
  from removable have loop: "fst (clean_loop paths_to_remove ?w1) = Inr ()"
    by (intro clean_loop_succeeds) simp
  then have first: "fst (clean w) = Inr True"
    by (simp add: clean_result)
  from loop have gone: "\<forall>p\<in>set paths_to_remove. nodes (fs (snd (clean w))) (Path p) = None"
    by (simp add: clean_fs clean_loop_all_absent)
  let ?v1 = "print_header ''Cleaning Build Artifacts'' (snd (clean w))"
  from gone have again:
    "fst (clean_loop paths_to_remove ?v1) = Inr () \<and>
     fs (snd (clean_loop paths_to_remove ?v1)) = fs ?v1"
    by (intro clean_loop_nothing_there) simp
  then have "fst (clean (snd (clean w))) = Inr True"
    and "fs (snd (clean (snd (clean w)))) = fs (snd (clean w))"
    by (simp_all add: clean_result clean_fs)
  with first gone show ?thesis by (simp add: exists_def)
qed

text \<open>The same file system, cleaned twice.\<close>

theorem clean_idempotent_witness:
  "fst (clean (snd (clean (start after_build)))) = Inr True \<and>
   fs (snd (clean (snd (clean (start after_build))))) = fs (snd (clean (start after_build))) \<and>
   nodes (fs (snd (clean (start after_build)))) [''build''] = None \<and>
   nodes (fs (snd (clean (start after_build)))) [''coverage.out''] = None"
  using clean_idempotent [of "start after_build"]
  by (simp add: paths_to_remove_def Path_listed start_def after_build_def exists_def)

subsection \<open>The \<^verbatim>\<open>build\<close> command\<close>

text \<open>
  Claim C7. With both options the command line is \<^verbatim>\<open>wails build -clean -upx\<close>: the base
  arguments, then the clean flag, then the compression flag. In general each flag is in
  the command line exactly when its option is set.
\<close>

theorem build_argument_list:
  "calls (snd (build os True True w)) =
     calls w @ [\<lparr>inv_cmd = [''wails'', ''build'', ''-clean'', ''-upx''], inv_cwd = None,
                 inv_check = True\<rparr>] \<and>
   calls (snd (build os clean_opt upx w)) =
     calls w @ [\<lparr>inv_cmd = [''wails'', ''build''] @ (if clean_opt then [''-clean''] else []) @
                            (if upx then [''-upx''] else []),
                 inv_cwd = None, inv_check = True\<rparr>] \<and>
   (''-clean'' \<in> set (inv_cmd (last (calls (snd (build os clean_opt upx w)))))) = clean_opt \<and>
   (''-upx'' \<in> set (inv_cmd (last (calls (snd (build os clean_opt upx w)))))) = upx"
  by (simp add: build_def run_command_Cons print_header_def Let_def)

text \<open>The three other settings of the two options.\<close>

theorem build_argument_list_witness:
  "calls (snd (build (always (Exited 0)) False False (start no_files))) =
     [\<lparr>inv_cmd = [''wails'', ''build''], inv_cwd = None, inv_check = True\<rparr>] \<and>
   calls (snd (build (always (Exited 0)) True False (start no_files))) =
     [\<lparr>inv_cmd = [''wails'', ''build'', ''-clean''], inv_cwd = None, inv_check = True\<rparr>] \<and>
   calls (snd (build (always (Exited 0)) False True (start no_files))) =
     [\<lparr>inv_cmd = [''wails'', ''build'', ''-upx''], inv_cwd = None, inv_check = True\<rparr>]"
  using build_argument_list [of "always (Exited 0)" "start no_files" False False]
        build_argument_list [of "always (Exited 0)" "start no_files" True False]
        build_argument_list [of "always (Exited 0)" "start no_files" False True]
  by (simp add: start_def)

subsection \<open>The \<^verbatim>\<open>lint\<close> command\<close>

text \<open>
  Claim C8. The linter is started once, with \<^verbatim>\<open>check\<close> not set, so that a non-zero exit
  raises nothing and is not reported by \<^verbatim>\<open>run_command\<close>. The command still returns
  \<^verbatim>\<open>True\<close> exactly when the linter exited with code zero, and \<^verbatim>\<open>False\<close> exactly when it
  exited with another code or was not found.
\<close>

theorem lint_single_tolerant_invocation:
  "calls (snd (lint os w)) =
     calls w @ [\<lparr>inv_cmd = [''golangci-lint'', ''run'', ''./...''], inv_cwd = None,
                 inv_check = False\<rparr>] \<and>
   fst (lint os w) =
     Inr (fst (os [''golangci-lint'', ''run'', ''./...''] None (fs w)) = Exited 0) \<and>
   (fst (lint os w) = Inr False) =
     (fst (os [''golangci-lint'', ''run'', ''./...''] None (fs w)) = NotFound \<or>
      (\<exists>rc. rc \<noteq> 0 \<and> fst (os [''golangci-lint'', ''run'', ''./...''] None (fs w)) = Exited rc)) \<and>
   printed w (snd (lint os w)) =
     [Header ''Running Linter'', Info ''Running: golangci-lint run ./...''] @
     (case fst (os [''golangci-lint'', ''run'', ''./...''] None (fs w)) of
        Exited rc \<Rightarrow>
          if rc = 0 then [Success ''Linting complete'']
          else [Error ''Linting failed (or golangci-lint not installed)'']
      | NotFound \<Rightarrow>
          [Error ''Command not found: golangci-lint'',
           Error ''Linting failed (or golangci-lint not installed)''])"
  by (cases "fst (os [''golangci-lint'', ''run'', ''./...''] None (fs w))")
     (simp_all add: lint_def run_command_Cons print_header_def print_success_def print_error_def printed_def)

text \<open>Findings, a missing linter and a clean run.\<close>

theorem lint_single_tolerant_invocation_witness:
  "fst (lint (always (Exited 1)) (start no_files)) = Inr False \<and>
   printed (start no_files) (snd (lint (always (Exited 1)) (start no_files))) =
     [Header ''Running Linter'', Info ''Running: golangci-lint run ./...'',
      Error ''Linting failed (or golangci-lint not installed)''] \<and>
   fst (lint (always NotFound) (start no_files)) = Inr False \<and>
   printed (start no_files) (snd (lint (always NotFound) (start no_files))) =
     [Header ''Running Linter'', Info ''Running: golangci-lint run ./...'',
      Error ''Command not found: golangci-lint'',
      Error ''Linting failed (or golangci-lint not installed)''] \<and>
   fst (lint (always (Exited 0)) (start no_files)) = Inr True"
  using lint_single_tolerant_invocation [of "always (Exited 1)" "start no_files"]
        lint_single_tolerant_invocation [of "always NotFound" "start no_files"]
        lint_single_tolerant_invocation [of "always (Exited 0)" "start no_files"]
  by (simp add: always_def)

subsection \<open>The \<^verbatim>\<open>clean\<close> command, coverage files only\<close>

text \<open>
  Claim C9, as amended. When of the five entries only the coverage profile and the
  coverage report are there, both are files, and removing them does not raise, the five
  entries are processed in the order of the list: three are reported as skipped, then two
  as removed, and \<^verbatim>\<open>clean\<close> returns \<^verbatim>\<open>True\<close>.
\<close>

theorem clean_coverage_only:
  "\<not> exists (fs w) (Path ''build/'') \<Longrightarrow>
   \<not> exists (fs w) (Path ''frontend/dist/'') \<Longrightarrow>
   \<not> exists (fs w) (Path ''frontend/node_modules/'') \<Longrightarrow>
   exists (fs w) (Path ''coverage.out'') \<Longrightarrow> \<not> is_dir (fs w) (Path ''coverage.out'') \<Longrightarrow>
   exists (fs w) (Path ''coverage.html'') \<Longrightarrow> \<not> is_dir (fs w) (Path ''coverage.html'') \<Longrightarrow>
   \<not> rm_fails (fs w) (Path ''coverage.out'') \<Longrightarrow>
   \<not> rm_fails (fs w) (Path ''coverage.html'') \<Longrightarrow>
     fst (clean w) = Inr True \<and>
     printed w (snd (clean w)) =
       [Header ''Cleaning Build Artifacts'',
        Info ''Skipping (not found): build/'',
        Info ''Skipping (not found): frontend/dist/'',
        Info ''Skipping (not found): frontend/node_modules/'',
        Info ''Removing file: coverage.out'', Success ''Removed: coverage.out'',
        Info ''Removing file: coverage.html'', Success ''Removed: coverage.html'',
        Success ''Clean complete''] \<and>
     length (filter is_removed (printed w (snd (clean w)))) = 2 \<and>
     length (filter is_skipping (printed w (snd (clean w)))) = 3"
  by (simp add: clean_def paths_to_remove_def Path_listed exists_def is_dir_def unlink_def
      print_header_def print_info_def print_success_def printed_def Let_def)

text \<open>The two coverage files and nothing else.\<close>

theorem clean_coverage_only_witness:
  "fst (clean (start coverage_only)) = Inr True \<and>
   length (filter is_removed (printed (start coverage_only) (snd (clean (start coverage_only))))) = 2 \<and>
   length (filter is_skipping (printed (start coverage_only) (snd (clean (start coverage_only))))) = 3"
  using clean_coverage_only [of "start coverage_only"]
  by (simp add: Path_listed start_def coverage_only_def exists_def is_dir_def)

text \<open>
  The claim as first stated does not ask that the removals go through. With the same two
  files there and the coverage profile impossible to remove, \<^verbatim>\<open>unlink\<close> raises: nothing
  is reported as removed and \<^verbatim>\<open>clean\<close> does not return.
\<close>

theorem clean_coverage_locked_raises:
  "\<not> exists (fs (start coverage_locked)) (Path ''build/'') \<and>
   \<not> exists (fs (start coverage_locked)) (Path ''frontend/dist/'') \<and>
   \<not> exists (fs (start coverage_locked)) (Path ''frontend/node_modules/'') \<and>
   exists (fs (start coverage_locked)) (Path ''coverage.out'') \<and>
   \<not> is_dir (fs (start coverage_locked)) (Path ''coverage.out'') \<and>
   exists (fs (start coverage_locked)) (Path ''coverage.html'') \<and>
   \<not> is_dir (fs (start coverage_locked)) (Path ''coverage.html'') \<and>
   fst (clean (start coverage_locked)) = Inl (OSError [''coverage.out'']) \<and>
   printed (start coverage_locked) (snd (clean (start coverage_locked))) =
     [Header ''Cleaning Build Artifacts'',
      Info ''Skipping (not found): build/'',
      Info ''Skipping (not found): frontend/dist/'',
      Info ''Skipping (not found): frontend/node_modules/'',
      Info ''Removing file: coverage.out''] \<and>
   length (filter is_removed
     (printed (start coverage_locked) (snd (clean (start coverage_locked))))) = 0"
  by (simp add: clean_def paths_to_remove_def Path_listed exists_def is_dir_def unlink_def
      print_header_def print_info_def print_success_def printed_def Let_def start_def
      coverage_locked_def)

subsection \<open>The wrapper \<^verbatim>\<open>run.py\<close>\<close>

text \<open>
  Claim C10. Whatever the arguments, the wrapper starts one process: the interpreter on
  the \<^verbatim>\<open>build.py\<close> beside the script, followed by the wrapper's own arguments, or by
  \<^verbatim>\<open>--help\<close> when it has none. Whatever code that process exits with, the wrapper exits
  with code 0.
\<close>

theorem run_py_exit_code:
  "spawn ([executable, str_path (truediv script_dir ''build.py'')] @
          (if length argv = 1 then [''--help''] else drop 1 argv)) = Exited rc \<Longrightarrow>
     run_py spawn executable script_dir argv =
       (Inr 0,
        [[executable, str_path (truediv script_dir ''build.py'')] @
         (if length argv = 1 then [''--help''] else drop 1 argv)]) \<and>
     str_path (truediv script_dir ''build.py'') =
       fst script_dir @ join ''/'' (snd script_dir @ [''build.py''])"
  by (cases "length argv = 1")
     (simp_all add: run_py_def Let_def truediv_def str_path_def Path_def)

text \<open>
  A subcommand that fails with code 1, a subcommand that succeeds, and the call without
  arguments, from a script in \<^verbatim>\<open>/opt/megobasterd\<close>.
\<close>

theorem run_py_exit_code_witness:
  "run_py (child_exits 1) ''python3'' (''/'', [''opt'', ''megobasterd'']) [''run.py'', ''test''] =
     (Inr 0, [[''python3'', ''/opt/megobasterd/build.py'', ''test'']]) \<and>
   run_py (child_exits 0) ''python3'' (''/'', [''opt'', ''megobasterd''])
       [''run.py'', ''build'', ''--upx''] =
     (Inr 0, [[''python3'', ''/opt/megobasterd/build.py'', ''build'', ''--upx'']]) \<and>
   run_py (child_exits 0) ''python3'' (''/'', [''opt'', ''megobasterd'']) [''run.py''] =
     (Inr 0, [[''python3'', ''/opt/megobasterd/build.py'', ''--help'']])"
  using run_py_exit_code
          [of "child_exits 1" "''python3''" "(''/'', [''opt'', ''megobasterd''])"
              "[''run.py'', ''test'']" 1]
        run_py_exit_code
          [of "child_exits 0" "''python3''" "(''/'', [''opt'', ''megobasterd''])"
              "[''run.py'', ''build'', ''--upx'']" 0]
        run_py_exit_code
          [of "child_exits 0" "''python3''" "(''/'', [''opt'', ''megobasterd''])"
              "[''run.py'']" 0]
  by (simp add: child_exits_def)

end
